theory Spec2Isabelle
  imports Complex_Main
begin

section \<open>Surface area of a digital elevation model (SurfaceArea.py)\<close>

text \<open>
  The function \<open>surface_area\<close> of SurfaceArea.py takes a two-dimensional numpy float
  array \<open>DEM\<close> and a scalar \<open>resolution\<close>, builds five arrays of edge lengths from
  slices of \<open>DEM\<close>, and adds up the areas of two triangles per 2x2 neighbourhood with
  Heron's formula. The embedding follows the source line by line.

  Numbers. The special values of IEEE arithmetic (the two infinities and NaN), which
  numpy produces and propagates without raising, are constructors of their own, and the
  overflow of \<open>resolution ** 2.\<close>, the one operation of the function that raises, is a
  branch of the model. A finite binary64 value is idealised as a real number: the array
  arithmetic of the model neither rounds nor overflows. What is proved about the numeric
  value of a result on finite elevations is therefore a statement about the exact value,
  from which the value computed in binary64 differs by rounding. What is proved about
  errors, about empty arrays, about the propagation of NaN and about the sign of the
  resolution does not depend on the idealisation.
\<close>

subsection \<open>Array elements\<close>

datatype npfloat = Fin real | PInf | NInf | NaN

fun fneg :: "npfloat \<Rightarrow> npfloat" where
  "fneg (Fin x) = Fin (- x)"
| "fneg PInf = NInf"
| "fneg NInf = PInf"
| "fneg NaN = NaN"

text \<open>Addition: \<open>inf + (-inf)\<close> is NaN, NaN is absorbing.\<close>

fun fadd :: "npfloat \<Rightarrow> npfloat \<Rightarrow> npfloat" where
  "fadd (Fin x) (Fin y) = Fin (x + y)"
| "fadd (Fin x) PInf = PInf"
| "fadd (Fin x) NInf = NInf"
| "fadd PInf (Fin y) = PInf"
| "fadd PInf PInf = PInf"
| "fadd PInf NInf = NaN"
| "fadd NInf (Fin y) = NInf"
| "fadd NInf NInf = NInf"
| "fadd NInf PInf = NaN"
| "fadd NaN y = NaN"
| "fadd x NaN = NaN"

definition fsub :: "npfloat \<Rightarrow> npfloat \<Rightarrow> npfloat" where
  "fsub x y = fadd x (fneg y)"

text \<open>The infinity with the sign of a finite factor; \<open>inf * 0\<close> is NaN.\<close>

definition inf_signed :: "real \<Rightarrow> npfloat" where
  "inf_signed s = (if s = 0 then NaN else if 0 < s then PInf else NInf)"

fun fmul :: "npfloat \<Rightarrow> npfloat \<Rightarrow> npfloat" where
  "fmul (Fin x) (Fin y) = Fin (x * y)"
| "fmul (Fin x) PInf = inf_signed x"
| "fmul (Fin x) NInf = inf_signed (- x)"
| "fmul PInf (Fin y) = inf_signed y"
| "fmul NInf (Fin y) = inf_signed (- y)"
| "fmul PInf PInf = PInf"
| "fmul PInf NInf = NInf"
| "fmul NInf PInf = NInf"
| "fmul NInf NInf = PInf"
| "fmul NaN y = NaN"
| "fmul x NaN = NaN"

text \<open>\<open>x ** 2.0\<close>: both infinities go to \<open>+inf\<close>.\<close>

fun pow_2 :: "npfloat \<Rightarrow> npfloat" where
  "pow_2 (Fin x) = Fin (x ^ 2)"
| "pow_2 PInf = PInf"
| "pow_2 NInf = PInf"
| "pow_2 NaN = NaN"

text \<open>
  \<open>x ** 0.5\<close> on an array: numpy evaluates the exponent 0.5 as the square root, so a
  negative base, finite or infinite, gives NaN.
\<close>

fun pow_half :: "npfloat \<Rightarrow> npfloat" where
  "pow_half (Fin x) = (if x < 0 then NaN else Fin (sqrt x))"
| "pow_half PInf = PInf"
| "pow_half NInf = NaN"
| "pow_half NaN = NaN"

text \<open>\<open>np.sqrt\<close>: a negative operand, finite or infinite, gives NaN (with a warning only).\<close>

fun np_sqrt :: "npfloat \<Rightarrow> npfloat" where
  "np_sqrt (Fin x) = (if x < 0 then NaN else Fin (sqrt x))"
| "np_sqrt PInf = PInf"
| "np_sqrt NInf = NaN"
| "np_sqrt NaN = NaN"

subsection \<open>Two-dimensional arrays\<close>

text \<open>
  An array of shape \<open>(rows, cols)\<close> is the list of its rows. numpy arrays are
  rectangular: \<open>shape_ok A rows cols\<close> says so. Binary operations of the source only
  ever meet arrays of one shape, so they are written with \<open>map2\<close>.
\<close>

type_synonym ndarray = "npfloat list list"

definition shape_ok :: "'a list list \<Rightarrow> nat \<Rightarrow> nat \<Rightarrow> bool" where
  "shape_ok A rows cols \<longleftrightarrow> length A = rows \<and> list_all (\<lambda>row. length row = cols) A"

definition arr_map :: "('a \<Rightarrow> 'b) \<Rightarrow> 'a list list \<Rightarrow> 'b list list" where
  "arr_map f A = map (map f) A"

definition arr_map2 :: "('a \<Rightarrow> 'b \<Rightarrow> 'c) \<Rightarrow> 'a list list \<Rightarrow> 'b list list \<Rightarrow> 'c list list" where
  "arr_map2 f A B = map2 (map2 f) A B"

text \<open>The four slices of the source.\<close>

definition slice_tl :: "'a list list \<Rightarrow> 'a list list" where
  \<comment> \<open>\<open>DEM[0:-1, 0:-1]\<close>\<close>
  "slice_tl A = map butlast (butlast A)"

definition slice_tr :: "'a list list \<Rightarrow> 'a list list" where
  \<comment> \<open>\<open>DEM[0:-1, 1:]\<close>\<close>
  "slice_tr A = map tl (butlast A)"

definition slice_bl :: "'a list list \<Rightarrow> 'a list list" where
  \<comment> \<open>\<open>DEM[1:, 0:-1]\<close>\<close>
  "slice_bl A = map butlast (tl A)"

definition slice_br :: "'a list list \<Rightarrow> 'a list list" where
  \<comment> \<open>\<open>DEM[1:, 1:]\<close>\<close>
  "slice_br A = map tl (tl A)"

text \<open>\<open>np.sum\<close> over all elements; the sum of an empty array is 0.\<close>

definition np_sum :: "ndarray \<Rightarrow> npfloat" where
  "np_sum A = foldl fadd (Fin 0) (concat A)"

subsection \<open>The function \<open>surface_area\<close>\<close>

text \<open>
  Errors. The resolution is a Python float (\<open>test_known_pyramid\<close> passes 1.0,
  \<open>compare_surface_area\<close> a number read from JSON), and \<open>resolution ** 2.\<close> in lines 44
  and 45 is Python's float power, which raises \<open>OverflowError\<close> when the result is too
  large for a double. For a double \<open>x\<close> this happens exactly from \<open>\<bar>x\<bar> = 2 ^ 512\<close> (about
  1.34e154) on: the largest double below \<open>2 ^ 512\<close> has a square below the largest
  double. On an infinity or on NaN the power raises nothing. No other operation of the
  function raises: the array arithmetic of numpy returns inf or NaN with at most a
  warning. \<open>InvalidArgument\<close> is the error the specification speaks of; nothing in the
  source raises it.
\<close>

datatype error = InvalidArgument | OverflowError

fun float_pow_2 :: "npfloat \<Rightarrow> error + npfloat" where
  "float_pow_2 (Fin x) = (if 2 ^ 512 \<le> \<bar>x\<bar> then Inl OverflowError else Inr (Fin (x ^ 2)))"
| "float_pow_2 PInf = Inr PInf"
| "float_pow_2 NInf = Inr PInf"
| "float_pow_2 NaN = Inr NaN"

text \<open>\<open>((A - B) ** 2.0 + d2) ** 0.5\<close>, the pattern of m1 to m5.\<close>

definition edge :: "ndarray \<Rightarrow> ndarray \<Rightarrow> npfloat \<Rightarrow> ndarray" where
  "edge A B d2 = arr_map (\<lambda>d. pow_half (fadd (pow_2 d) d2)) (arr_map2 fsub A B)"

text \<open>\<open>0.5 * (a + b + c)\<close>, the pattern of s1 and s2.\<close>

definition semi :: "ndarray \<Rightarrow> ndarray \<Rightarrow> ndarray \<Rightarrow> ndarray" where
  "semi a b c = arr_map (fmul (Fin (1/2))) (arr_map2 fadd (arr_map2 fadd a b) c)"

text \<open>\<open>s * (s - a) * (s - b) * (s - c)\<close>, the operand of \<open>np.sqrt\<close>.\<close>

definition radicand :: "ndarray \<Rightarrow> ndarray \<Rightarrow> ndarray \<Rightarrow> ndarray \<Rightarrow> ndarray" where
  "radicand s a b c =
     arr_map2 fmul (arr_map2 fmul (arr_map2 fmul s (arr_map2 fsub s a)) (arr_map2 fsub s b))
       (arr_map2 fsub s c)"

definition heron :: "ndarray \<Rightarrow> ndarray \<Rightarrow> ndarray \<Rightarrow> ndarray \<Rightarrow> ndarray" where
  "heron s a b c = arr_map np_sqrt (radicand s a b c)"

definition surface_area :: "ndarray \<Rightarrow> npfloat \<Rightarrow> error + npfloat" where
  "surface_area DEM resolution =
    (case float_pow_2 resolution of Inl e \<Rightarrow> Inl e | Inr resolution_squared \<Rightarrow>
    (case float_pow_2 resolution of Inl e \<Rightarrow> Inl e | Inr p \<Rightarrow>
    (let cross_distance_squared = fmul (Fin 2) p;
         m1 = edge (slice_tl DEM) (slice_tr DEM) resolution_squared;
         m2 = edge (slice_tl DEM) (slice_bl DEM) resolution_squared;
         m3 = edge (slice_tl DEM) (slice_br DEM) cross_distance_squared;
         m4 = edge (slice_tr DEM) (slice_br DEM) resolution_squared;
         m5 = edge (slice_bl DEM) (slice_br DEM) resolution_squared;
         s1 = semi m3 m5 m2;
         s2 = semi m3 m4 m1;
         area = fadd (np_sum (heron s1 m3 m5 m2)) (np_sum (heron s2 m3 m4 m1))
     in Inr area)))"

subsection \<open>Pointwise view of the array computation\<close>

text \<open>
  The array \<open>tab R C F\<close> has the entry \<open>F i j\<close> in row \<open>i\<close> and column \<open>j\<close>. Every
  array of the source is of this form, which turns the slice arithmetic into arithmetic
  on indices.
\<close>

definition tab :: "nat \<Rightarrow> nat \<Rightarrow> (nat \<Rightarrow> nat \<Rightarrow> 'a) \<Rightarrow> 'a list list" where
  "tab R C F = map (\<lambda>i. map (\<lambda>j. F i j) [0..<C]) [0..<R]"

text \<open>One entry of an edge array, of a radicand array and of a triangle-area array.\<close>

definition side :: "npfloat \<Rightarrow> npfloat \<Rightarrow> npfloat \<Rightarrow> npfloat" where
  "side za zb d2 = pow_half (fadd (pow_2 (fsub za zb)) d2)"

definition rad1 :: "npfloat \<Rightarrow> npfloat \<Rightarrow> npfloat \<Rightarrow> npfloat" where
  "rad1 a b c =
     (let s = fmul (Fin (1/2)) (fadd (fadd a b) c)
      in fmul (fmul (fmul s (fsub s a)) (fsub s b)) (fsub s c))"

definition tri_rad :: "npfloat \<Rightarrow> npfloat \<Rightarrow> npfloat \<Rightarrow> npfloat \<Rightarrow> npfloat" where
  "tri_rad resolution za zb zc =
     rad1 (side za zc (fmul (Fin 2) (pow_2 resolution)))
          (side zb zc (pow_2 resolution))
          (side za zb (pow_2 resolution))"

definition tri :: "npfloat \<Rightarrow> npfloat \<Rightarrow> npfloat \<Rightarrow> npfloat \<Rightarrow> npfloat" where
  "tri resolution za zb zc = np_sqrt (tri_rad resolution za zb zc)"

text \<open>
  In exact arithmetic the triangle over a right-angled footprint with legs \<open>r\<close>, whose
  elevation changes by \<open>u\<close> along one leg and by \<open>v\<close> along the other, has the area
  \<open>tri_area r u v\<close>. A cell has the corners \<open>z1\<close> (top left), \<open>z2\<close> (top right), \<open>z3\<close>
  (bottom left) and \<open>z4\<close> (bottom right).
\<close>

definition tri_area :: "real \<Rightarrow> real \<Rightarrow> real \<Rightarrow> real" where
  "tri_area r u v = \<bar>r\<bar> / 2 * sqrt (r ^ 2 + u ^ 2 + v ^ 2)"

definition cell_area :: "real \<Rightarrow> real \<Rightarrow> real \<Rightarrow> real \<Rightarrow> real \<Rightarrow> real" where
  "cell_area r z1 z2 z3 z4 = tri_area r (z1 - z3) (z3 - z4) + tri_area r (z1 - z2) (z2 - z4)"

definition grid_area :: "real \<Rightarrow> nat \<Rightarrow> nat \<Rightarrow> (nat \<Rightarrow> nat \<Rightarrow> real) \<Rightarrow> real" where
  "grid_area r R C f =
     (\<Sum>i<R - 1. \<Sum>j<C - 1. cell_area r (f i j) (f i (Suc j)) (f (Suc i) j) (f (Suc i) (Suc j)))"

subsection \<open>Operations on grids used by the claims\<close>

text \<open>
  The grid of \<open>test_known_pyramid\<close>, and the comparison of a result with a target value
  up to a tolerance; an error or a non-finite result is within no tolerance.
\<close>

definition pyramid :: "real list list" where
  "pyramid = [[0, 0, 0], [0, 1, 0], [0, 0, 0]]"

definition within_tol :: "error + npfloat \<Rightarrow> real \<Rightarrow> real \<Rightarrow> bool" where
  "within_tol res target tol =
     (case res of Inr (Fin a) \<Rightarrow> \<bar>a - target\<bar> \<le> tol | _ \<Rightarrow> False)"

text \<open>
  Finite values, and the two values an edge length takes when it is not finite.
\<close>

fun is_finite :: "npfloat \<Rightarrow> bool" where
  "is_finite (Fin x) = True"
| "is_finite PInf = False"
| "is_finite NInf = False"
| "is_finite NaN = False"

definition unbounded :: "npfloat \<Rightarrow> bool" where
  "unbounded x \<longleftrightarrow> x = PInf \<or> x = NaN"



section \<open>Lemmas\<close>

subsection \<open>Slices and elementwise operations on tabulated arrays\<close>

lemma shape_ok_tab: "shape_ok A R C \<Longrightarrow> A = tab R C (\<lambda>i j. A ! i ! j)"
  unfolding shape_ok_def tab_def list_all_iff
  by (auto intro!: nth_equalityI)

lemma map_butlast_upt: "butlast (map f [0..<n]) = map f [0..<n - 1]"
  by (cases n) (simp_all add: map_butlast[symmetric])

lemma map_tl_upt: "tl (map f [0..<n]) = map (\<lambda>i. f (Suc i)) [0..<n - 1]"
  by (cases n) (simp_all add: map_tl[symmetric] upt_conv_Cons map_Suc_upt[symmetric] del: upt_Suc)

lemma slice_tl_tab: "slice_tl (tab R C F) = tab (R - 1) (C - 1) F"
  by (simp add: slice_tl_def tab_def map_butlast_upt)

lemma slice_tr_tab: "slice_tr (tab R C F) = tab (R - 1) (C - 1) (\<lambda>i j. F i (Suc j))"
  by (simp add: slice_tr_def tab_def map_butlast_upt map_tl_upt)

lemma slice_bl_tab: "slice_bl (tab R C F) = tab (R - 1) (C - 1) (\<lambda>i j. F (Suc i) j)"
  by (simp add: slice_bl_def tab_def map_butlast_upt map_tl_upt)

lemma slice_br_tab: "slice_br (tab R C F) = tab (R - 1) (C - 1) (\<lambda>i j. F (Suc i) (Suc j))"
  by (simp add: slice_br_def tab_def map_butlast_upt map_tl_upt)

lemma map2_same: "map2 f (map g xs) (map h xs) = map (\<lambda>x. f (g x) (h x)) xs"
  by (induction xs) simp_all

lemma arr_map_tab: "arr_map f (tab R C F) = tab R C (\<lambda>i j. f (F i j))"
  by (simp add: arr_map_def tab_def)

lemma arr_map2_tab: "arr_map2 f (tab R C F) (tab R C G) = tab R C (\<lambda>i j. f (F i j) (G i j))"
  by (simp add: arr_map2_def tab_def map2_same)

lemma edge_tab: "edge (tab R C F) (tab R C G) d2 = tab R C (\<lambda>i j. side (F i j) (G i j) d2)"
  by (simp add: edge_def side_def arr_map_tab arr_map2_tab)

lemma semi_tab:
  "semi (tab R C F) (tab R C G) (tab R C H) =
     tab R C (\<lambda>i j. fmul (Fin (1/2)) (fadd (fadd (F i j) (G i j)) (H i j)))"
  by (simp add: semi_def arr_map_tab arr_map2_tab)

lemma radicand_semi_tab:
  "radicand (semi (tab R C F) (tab R C G) (tab R C H)) (tab R C F) (tab R C G) (tab R C H) =
     tab R C (\<lambda>i j. rad1 (F i j) (G i j) (H i j))"
  by (simp add: semi_tab radicand_def arr_map2_tab rad1_def Let_def)

subsection \<open>The two outcomes of the power of the resolution\<close>

lemma float_pow_2_cases: "float_pow_2 x = Inl OverflowError \<or> float_pow_2 x = Inr (pow_2 x)"
  by (cases x) simp_all

lemma float_pow_2_Fin: "\<bar>r\<bar> < 2 ^ 512 \<Longrightarrow> float_pow_2 (Fin r) = Inr (pow_2 (Fin r))"
  by simp

lemma float_pow_2_abs: "float_pow_2 (Fin \<bar>r\<bar>) = float_pow_2 (Fin r)"
  by simp

lemma surface_area_overflow:
  "float_pow_2 res = Inl OverflowError \<Longrightarrow> surface_area DEM res = Inl OverflowError"
  by (simp add: surface_area_def)

lemma surface_area_not_invalid: "surface_area DEM res \<noteq> Inl InvalidArgument"
  using float_pow_2_cases[of res] by (auto simp: surface_area_def Let_def)

lemma surface_area_tab:
  assumes "float_pow_2 res = Inr (pow_2 res)"
  shows "surface_area (tab R C F) res =
     Inr (fadd (np_sum (tab (R - 1) (C - 1) (\<lambda>i j. tri res (F i j) (F (Suc i) j) (F (Suc i) (Suc j)))))
               (np_sum (tab (R - 1) (C - 1) (\<lambda>i j. tri res (F i j) (F i (Suc j)) (F (Suc i) (Suc j))))))"
  by (simp add: surface_area_def assms Let_def slice_tl_tab slice_tr_tab slice_bl_tab slice_br_tab
      edge_tab heron_def radicand_semi_tab arr_map_tab tri_def tri_rad_def)

subsection \<open>Heron's formula on the sides of a cell triangle\<close>

lemma heron_radicand:
  fixes a b c :: real
  shows "(1/2 * (c + b + a)) * ((1/2 * (c + b + a)) - c) * ((1/2 * (c + b + a)) - b)
           * ((1/2 * (c + b + a)) - a)
         = (4 * a^2 * b^2 - (c^2 - a^2 - b^2)^2) / 16"
  by (simp add: field_simps power2_eq_square)

lemma cell_radicand:
  fixes r u v w :: real
  assumes w: "w = u + v"
  defines "a \<equiv> sqrt (u ^ 2 + r ^ 2)" and "b \<equiv> sqrt (v ^ 2 + r ^ 2)"
    and "c \<equiv> sqrt (w ^ 2 + 2 * r ^ 2)"
  shows "(1/2 * (c + b + a)) * ((1/2 * (c + b + a)) - c) * ((1/2 * (c + b + a)) - b)
           * ((1/2 * (c + b + a)) - a)
         = r ^ 2 * (r ^ 2 + u ^ 2 + v ^ 2) / 4"
proof -
  have a2: "a ^ 2 = u ^ 2 + r ^ 2" and b2: "b ^ 2 = v ^ 2 + r ^ 2"
    and c2: "c ^ 2 = (u + v) ^ 2 + 2 * r ^ 2"
    by (simp_all add: a_def b_def c_def w)
  have "c ^ 2 - a ^ 2 - b ^ 2 = 2 * u * v"
    unfolding a2 b2 c2 by (simp add: power2_eq_square algebra_simps)
  then have "(4 * a^2 * b^2 - (c^2 - a^2 - b^2)^2) / 16 = r ^ 2 * (r ^ 2 + u ^ 2 + v ^ 2) / 4"
    unfolding a2 b2 by (simp add: power2_eq_square algebra_simps)
  then show ?thesis by (simp only: heron_radicand)
qed

lemma sqrt_cell_radicand:
  fixes r u v :: real
  shows "sqrt (r ^ 2 * (r ^ 2 + u ^ 2 + v ^ 2) / 4) = tri_area r u v"
  by (simp add: tri_area_def real_sqrt_mult real_sqrt_divide)

lemma tri_rad_Fin:
  "tri_rad (Fin r) (Fin za) (Fin zb) (Fin zc)
     = Fin (r ^ 2 * (r ^ 2 + (za - zb) ^ 2 + (zb - zc) ^ 2) / 4)"
proof -
  have nn: "\<not> (za - zc)\<^sup>2 + 2 * r\<^sup>2 < 0" "\<not> (zb - zc)\<^sup>2 + r\<^sup>2 < 0"
    "\<not> (za - zb)\<^sup>2 + r\<^sup>2 < 0"
    by (simp_all add: not_less)
  have rad: "1 / 2 * (sqrt ((za - zc)\<^sup>2 + 2 * r\<^sup>2) + sqrt ((zb - zc)\<^sup>2 + r\<^sup>2)
                 + sqrt ((za - zb)\<^sup>2 + r\<^sup>2)) *
      (1 / 2 * (sqrt ((za - zc)\<^sup>2 + 2 * r\<^sup>2) + sqrt ((zb - zc)\<^sup>2 + r\<^sup>2)
                 + sqrt ((za - zb)\<^sup>2 + r\<^sup>2)) - sqrt ((za - zc)\<^sup>2 + 2 * r\<^sup>2)) *
      (1 / 2 * (sqrt ((za - zc)\<^sup>2 + 2 * r\<^sup>2) + sqrt ((zb - zc)\<^sup>2 + r\<^sup>2)
                 + sqrt ((za - zb)\<^sup>2 + r\<^sup>2)) - sqrt ((zb - zc)\<^sup>2 + r\<^sup>2)) *
      (1 / 2 * (sqrt ((za - zc)\<^sup>2 + 2 * r\<^sup>2) + sqrt ((zb - zc)\<^sup>2 + r\<^sup>2)
                 + sqrt ((za - zb)\<^sup>2 + r\<^sup>2)) - sqrt ((za - zb)\<^sup>2 + r\<^sup>2))
      = r ^ 2 * (r ^ 2 + (za - zb) ^ 2 + (zb - zc) ^ 2) / 4"
    by (rule cell_radicand) simp
  show ?thesis
    unfolding tri_rad_def rad1_def side_def Let_def fsub_def
    by (simp only: fneg.simps fadd.simps fmul.simps pow_2.simps pow_half.simps nn if_False
        minus_real_def[symmetric] diff_conv_add_uminus[symmetric] rad)
qed

lemma tri_Fin: "tri (Fin r) (Fin za) (Fin zb) (Fin zc) = Fin (tri_area r (za - zb) (zb - zc))"
proof -
  have "\<not> r ^ 2 * (r ^ 2 + (za - zb) ^ 2 + (zb - zc) ^ 2) / 4 < 0"
    by (simp add: not_less)
  then show ?thesis
    by (simp only: tri_def tri_rad_Fin np_sqrt.simps if_False sqrt_cell_radicand)
qed

subsection \<open>The result on a finite grid, as a sum over the cells\<close>

lemma foldl_fadd_Fin: "foldl fadd (Fin a) (map Fin xs) = Fin (a + sum_list xs)"
  by (induction xs arbitrary: a) (simp_all add: add.assoc)

lemma sum_list_concat_rows: "sum_list (concat xss) = sum_list (map sum_list (xss :: real list list))"
  by (induction xss) simp_all

lemma sum_list_upt: "sum_list (map f [0..<n]) = (\<Sum>i<n. (f i :: real))"
  by (simp add: interv_sum_list_conv_sum_set_nat atLeast0LessThan)

lemma np_sum_tab_Fin: "np_sum (tab R C (\<lambda>i j. Fin (f i j))) = Fin (\<Sum>i<R. \<Sum>j<C. f i j)"
proof -
  have "concat (tab R C (\<lambda>i j. Fin (f i j))) = map Fin (concat (tab R C f))"
    by (simp add: tab_def map_concat comp_def)
  moreover have "sum_list (concat (tab R C f)) = (\<Sum>i<R. \<Sum>j<C. f i j)"
    by (simp add: tab_def sum_list_concat_rows comp_def sum_list_upt)
  ultimately show ?thesis
    by (simp add: np_sum_def foldl_fadd_Fin)
qed

lemma surface_area_Fin_tab:
  assumes "\<bar>r\<bar> < 2 ^ 512"
  shows "surface_area (tab R C (\<lambda>i j. Fin (f i j))) (Fin r) = Inr (Fin (grid_area r R C f))"
  by (simp only: surface_area_tab[OF float_pow_2_Fin[OF assms]])
    (simp add: tri_Fin np_sum_tab_Fin grid_area_def cell_area_def sum.distrib)

lemma surface_area_shape:
  assumes "shape_ok g R C" and "\<bar>r\<bar> < 2 ^ 512"
  shows "surface_area (arr_map Fin g) (Fin r) = Inr (Fin (grid_area r R C (\<lambda>i j. g ! i ! j)))"
proof -
  have "arr_map Fin g = arr_map Fin (tab R C (\<lambda>i j. g ! i ! j))"
    using shape_ok_tab[OF assms(1)] by simp
  then show ?thesis
    by (simp add: arr_map_tab surface_area_Fin_tab[OF assms(2)])
qed

lemma unit_resolution: "\<bar>1 :: real\<bar> < 2 ^ 512" "\<bar>- 1 :: real\<bar> < 2 ^ 512"
  by simp_all

lemma shape_ok_nth_mem: "shape_ok g R C \<Longrightarrow> i < R \<Longrightarrow> j < C \<Longrightarrow> g ! i ! j \<in> set (concat g)"
  by (auto simp: shape_ok_def list_all_iff intro!: bexI[of _ "g ! i"])

lemma grid_area_cong:
  "(\<And>i j. i < R \<Longrightarrow> j < C \<Longrightarrow> f i j = f' i j) \<Longrightarrow> grid_area r R C f = grid_area r R C f'"
  unfolding grid_area_def
  by (intro sum.cong refl) (simp_all add: less_diff_conv)

lemma tri_area_flat: "tri_area r 0 0 = r * r / 2"
  by (simp add: tri_area_def power2_eq_square[symmetric])

lemma cell_area_flat: "cell_area r c c c c = r * r"
  by (simp add: cell_area_def tri_area_flat)

lemma grid_area_flat: "grid_area r R C (\<lambda>i j. c) = real (R - 1) * real (C - 1) * r * r"
  by (simp add: grid_area_def cell_area_flat)

lemma shape_ok_concat_nth:
  assumes "shape_ok g R C" and "x \<in> set (concat g)"
  shows "\<exists>i<R. \<exists>j<C. x = g ! i ! j"
proof -
  from assms(2) obtain row where row: "row \<in> set g" and x: "x \<in> set row" by auto
  from row obtain i where i: "i < length g" "row = g ! i" by (auto simp: in_set_conv_nth)
  from x obtain j where j: "j < length row" "x = row ! j" by (auto simp: in_set_conv_nth)
  have "length row = C" using assms(1) row by (simp add: shape_ok_def list_all_iff)
  moreover have "length g = R" using assms(1) by (simp add: shape_ok_def)
  ultimately show ?thesis using i j by auto
qed

subsection \<open>The pyramid of the test\<close>

lemma lessThan_2: "{..<2::nat} = {0, 1}"
  by auto

lemma pyramid_grid_area:
  "grid_area 1 3 3 (\<lambda>i j. pyramid ! i ! j) = 1 + 2 * sqrt 2 + sqrt 3"
proof -
  have n: "(3::nat) - 1 = 2" by simp
  have t1: "tri_area 1 0 (- 1) = sqrt 2 / 2" "tri_area 1 0 0 = 1 / 2"
    "tri_area 1 (- 1) 1 = sqrt 3 / 2" "tri_area 1 1 0 = sqrt 2 / 2"
    by (simp_all add: tri_area_def)
  show ?thesis
    unfolding grid_area_def n lessThan_2
    by (simp add: pyramid_def cell_area_def t1)
qed

lemma pyramid_value:
  "surface_area (arr_map Fin pyramid) (Fin 1) = Inr (Fin (1 + 2 * sqrt 2 + sqrt 3))"
proof -
  have "shape_ok pyramid 3 3" by (simp add: shape_ok_def pyramid_def)
  then show ?thesis by (simp only: surface_area_shape[OF _ unit_resolution(1)] pyramid_grid_area)
qed

lemma sqrt2_bounds: "141 / 100 < sqrt 2" "sqrt 2 < 1415 / 1000"
proof -
  show "141 / 100 < sqrt 2" by (rule real_less_rsqrt) (simp add: power2_eq_square)
  show "sqrt 2 < 1415 / 1000" by (rule real_less_lsqrt) (simp_all add: power2_eq_square)
qed

lemma sqrt3_bounds: "1732 / 1000 < sqrt 3" "sqrt 3 < 174 / 100"
proof -
  show "1732 / 1000 < sqrt 3" by (rule real_less_rsqrt) (simp add: power2_eq_square)
  show "sqrt 3 < 174 / 100" by (rule real_less_lsqrt) (simp_all add: power2_eq_square)
qed

subsection \<open>Non-finite values propagate to the result\<close>

lemma side_not_NInf: "side za zb d2 \<noteq> NInf"
proof -
  have "pow_half x \<noteq> NInf" for x by (cases x) simp_all
  then show ?thesis by (simp add: side_def)
qed

lemma pow_half_unbounded: "\<not> is_finite x \<Longrightarrow> unbounded (pow_half x)"
  by (cases x) (simp_all add: unbounded_def)

lemma fadd_not_finite: "\<not> is_finite x \<Longrightarrow> \<not> is_finite (fadd x y)"
  by (cases x; cases y) simp_all

lemma pow_2_not_finite: "\<not> is_finite x \<Longrightarrow> \<not> is_finite (pow_2 x)"
  by (cases x) simp_all

lemma side_unbounded:
  assumes "\<not> is_finite za \<or> \<not> is_finite zb"
  shows "unbounded (side za zb d2)"
proof -
  have "\<not> is_finite (fsub za zb)"
    using assms unfolding fsub_def
    by (cases za; cases zb) simp_all
  then show ?thesis
    unfolding side_def
    by (intro pow_half_unbounded fadd_not_finite pow_2_not_finite)
qed

lemma rad1_NaN:
  assumes "a \<noteq> NInf" and "b \<noteq> NInf" and "c \<noteq> NInf"
    and "unbounded a \<or> unbounded b \<or> unbounded c"
  shows "rad1 a b c = NaN"
  using assms
  by (cases a; cases b; cases c)
    (simp_all add: rad1_def fsub_def unbounded_def inf_signed_def)

lemma tri_NaN:
  assumes "\<not> is_finite za \<or> \<not> is_finite zb \<or> \<not> is_finite zc"
  shows "tri res za zb zc = NaN"
proof -
  have "unbounded (side za zc (fmul (Fin 2) (pow_2 res))) \<or> unbounded (side zb zc (pow_2 res))
      \<or> unbounded (side za zb (pow_2 res))"
    using assms side_unbounded by blast
  then have "tri_rad res za zb zc = NaN"
    unfolding tri_rad_def by (intro rad1_NaN side_not_NInf)
  then show ?thesis by (simp add: tri_def)
qed

lemma foldl_fadd_NaN: "foldl fadd NaN xs = NaN"
  by (induction xs) simp_all

lemma fadd_NaN_right: "fadd x NaN = NaN"
  by (cases x) simp_all

lemma foldl_fadd_mem_NaN: "NaN \<in> set xs \<Longrightarrow> foldl fadd a xs = NaN"
proof (induction xs arbitrary: a)
  case Nil
  then show ?case by simp
next
  case (Cons x xs)
  show ?case
  proof (cases "x = NaN")
    case True
    then show ?thesis by (simp add: fadd_NaN_right foldl_fadd_NaN)
  next
    case False
    with Cons.prems have "NaN \<in> set xs" by simp
    then show ?thesis by (simp add: Cons.IH)
  qed
qed

lemma tab_entry_mem: "i < R \<Longrightarrow> j < C \<Longrightarrow> F i j \<in> set (concat (tab R C F))"
  by (auto simp: tab_def intro!: bexI[of _ i] image_eqI[of _ _ j])

lemma np_sum_tab_NaN: "i < R \<Longrightarrow> j < C \<Longrightarrow> F i j = NaN \<Longrightarrow> np_sum (tab R C F) = NaN"
  unfolding np_sum_def
  by (rule foldl_fadd_mem_NaN) (metis tab_entry_mem)

lemma enclosing_cell:
  assumes "p < R" and "2 \<le> R"
  obtains i where "i < R - 1" and "p = i \<or> p = Suc i"
proof (cases "p < R - 1")
  case True
  then show ?thesis using that by blast
next
  case False
  with assms have "p - 1 < R - 1" "p = Suc (p - 1)" by simp_all
  then show ?thesis using that by blast
qed

lemma nan_grid_value:
  "surface_area [[NaN, Fin 0], [Fin 0, Fin 0]] (Fin 1) = Inr NaN"
  by (simp add: surface_area_def slice_tl_def slice_tr_def slice_bl_def slice_br_def edge_def
      semi_def heron_def radicand_def arr_map_def arr_map2_def np_sum_def fsub_def)

subsection \<open>The resolution enters only squared\<close>

lemma tri_area_neg: "tri_area (- r) u v = tri_area r u v"
  by (simp add: tri_area_def)

lemma grid_area_neg: "grid_area (- r) R C f = grid_area r R C f"
  by (simp only: grid_area_def cell_area_def tri_area_neg)

lemma zero_grid_value:
  "surface_area (arr_map Fin [[0, 0], [0, 0]]) (Fin (- 1)) = Inr (Fin 1)"
proof -
  have s: "shape_ok [[0, 0], [0, 0 :: real]] 2 2" by (simp add: shape_ok_def)
  have "\<forall>z \<in> set (concat [[0, 0], [0, 0 :: real]]). z = 0" by simp
  then have "grid_area 1 2 2 (\<lambda>i j. [[0, 0], [0, 0 :: real]] ! i ! j) = grid_area 1 2 2 (\<lambda>i j. 0)"
    using shape_ok_nth_mem[OF s] by (intro grid_area_cong) blast
  then have "grid_area (- 1) 2 2 (\<lambda>i j. [[0, 0], [0, 0 :: real]] ! i ! j) = 1"
    by (simp only: grid_area_neg grid_area_flat) simp
  then show ?thesis by (simp only: surface_area_shape[OF s unit_resolution(2)])
qed

subsection \<open>Raising one elevation\<close>










subsection \<open>Empty sums\<close>

lemma concat_empty_rows: "concat (map (\<lambda>i. []) xs) = []"
  by (induction xs) simp_all

lemma np_sum_tab_empty: "R = 0 \<or> C = 0 \<Longrightarrow> np_sum (tab R C F) = Fin 0"
  by (auto simp: np_sum_def tab_def concat_empty_rows)

section \<open>The claims\<close>

subsection \<open>The pyramid of the test\<close>

text \<open>
  Claim C1 says that for the grid \<open>[[0,0,0],[0,1,0],[0,0,0]]\<close> and resolution 1.0 the
  result is within \<open>1e-3\<close> of \<open>4 * sqrt 2\<close>. It is not: the two cells whose
  diagonal does not pass through the apex contribute \<open>(1 + sqrt 3) / 2\<close> each
  instead of \<open>sqrt 2\<close>.
\<close>

theorem pyramid_not_within_tolerance:
  "\<not> within_tol (surface_area (arr_map Fin pyramid) (Fin 1)) (4 * sqrt 2) (1 / 1000)"
  using sqrt2_bounds(1) sqrt3_bounds(2) by (simp add: within_tol_def pyramid_value)

text \<open>
  Claim C1, amended. For this grid and resolution 1.0 \<open>surface_area\<close> returns
  \<open>1 + 2 * sqrt 2 + sqrt 3\<close> (about 5.560), which is within 0.1 of \<open>4 * sqrt 2\<close>
  (about 5.657).
\<close>

theorem pyramid_area:
  "surface_area (arr_map Fin pyramid) (Fin 1) = Inr (Fin (1 + 2 * sqrt 2 + sqrt 3))
   \<and> within_tol (surface_area (arr_map Fin pyramid) (Fin 1)) (4 * sqrt 2) (1 / 10)"
  using sqrt2_bounds sqrt3_bounds by (simp add: within_tol_def pyramid_value)

subsection \<open>Degenerate grids\<close>

text \<open>
  Claim C7 says that for a grid with fewer than two rows or fewer than two columns and
  every resolution \<open>r > 0\<close> the result is exactly 0. For a resolution from \<open>2 ^ 512\<close>
  on, \<open>resolution ** 2.\<close> in line 44 raises \<open>OverflowError\<close> before any slice is
  taken: for the grid \<open>[[1, 7, 3]]\<close> and the resolution \<open>2 ^ 600\<close> (about 4.1e180) the
  call raises instead of returning 0.
\<close>

theorem degenerate_grid_overflow:
  "(0 :: real) < 2 ^ 600
   \<and> surface_area [[Fin 1, Fin 7, Fin 3]] (Fin (2 ^ 600)) = Inl OverflowError"
  by (simp add: surface_area_def)

text \<open>
  Claim C7, amended. For every grid with fewer than two rows or fewer than two columns
  and every resolution \<open>r > 0\<close> below \<open>2 ^ 512\<close> (about 1.34e154), \<open>surface_area\<close>
  returns exactly 0: all slices are empty and \<open>np.sum\<close> of an empty array is 0. For a
  resolution from \<open>2 ^ 512\<close> on it raises \<open>OverflowError\<close>.
\<close>

theorem degenerate_grid_zero:
  assumes "shape_ok DEM rows cols" and "rows < 2 \<or> cols < 2" and "0 < r"
  shows "surface_area DEM (Fin r) = (if r < 2 ^ 512 then Inr (Fin 0) else Inl OverflowError)"
proof (cases "r < 2 ^ 512")
  case True
  then have ok: "float_pow_2 (Fin r) = Inr (pow_2 (Fin r))"
    using assms(3) by (intro float_pow_2_Fin) simp
  have "rows - 1 = 0 \<or> cols - 1 = 0" using assms(2) by auto
  then have "np_sum (tab (rows - 1) (cols - 1) F) = Fin 0" for F :: "nat \<Rightarrow> nat \<Rightarrow> npfloat"
    by (rule np_sum_tab_empty)
  then have "surface_area (tab rows cols (\<lambda>i j. DEM ! i ! j)) (Fin r) = Inr (Fin 0)"
    by (simp add: surface_area_tab[OF ok])
  then show ?thesis
    using shape_ok_tab[OF assms(1)] True by simp
next
  case False
  then have "float_pow_2 (Fin r) = Inl OverflowError" using assms(3) by simp
  then have "surface_area DEM (Fin r) = Inl OverflowError" by (rule surface_area_overflow)
  then show ?thesis using False by simp
qed

theorem degenerate_grid_zero_witness:
  "surface_area [[Fin 1, Fin 7, Fin 3]] (Fin 2) = Inr (Fin 0)
   \<and> surface_area [[Fin 1], [Fin 7], [Fin 3]] (Fin 2) = Inr (Fin 0)"
proof -
  have a: "shape_ok [[Fin 1, Fin 7, Fin 3]] 1 3" by (simp add: shape_ok_def)
  have b: "shape_ok [[Fin 1], [Fin 7], [Fin 3]] 3 1" by (simp add: shape_ok_def)
  show ?thesis
    using degenerate_grid_zero[OF a, of 2] degenerate_grid_zero[OF b, of 2] by simp
qed

subsection \<open>Grids with NaN or infinite elevations\<close>

text \<open>
  Claim C5 says that for a grid containing a NaN or an infinite elevation
  \<open>surface_area\<close> raises an invalid-argument error and never silently returns NaN.
  The source has no check of its input: on the grid \<open>[[nan, 0], [0, 0]]\<close> it
  returns NaN.
\<close>

theorem nan_grid_returns_nan:
  "surface_area [[NaN, Fin 0], [Fin 0, Fin 0]] (Fin 1) \<noteq> Inl InvalidArgument
   \<and> surface_area [[NaN, Fin 0], [Fin 0, Fin 0]] (Fin 1) = Inr NaN"
  by (simp add: nan_grid_value)

text \<open>
  Claim C5, amended. For every grid with at least two rows and two columns that contains
  a NaN or an infinite elevation, and every resolution, \<open>surface_area\<close> raises no
  invalid-argument error: it returns NaN, unless \<open>resolution ** 2.\<close> overflows (a
  finite resolution of magnitude \<open>2 ^ 512\<close> or more), in which case it raises
  \<open>OverflowError\<close> as it does for every grid.
\<close>

theorem non_finite_gives_nan:
  assumes "shape_ok DEM rows cols" and "2 \<le> rows" and "2 \<le> cols"
    and "\<exists>z \<in> set (concat DEM). \<not> is_finite z"
  shows "surface_area DEM resolution \<noteq> Inl InvalidArgument
         \<and> surface_area DEM resolution
             = (if float_pow_2 resolution = Inl OverflowError then Inl OverflowError else Inr NaN)"
proof (cases "float_pow_2 resolution = Inl OverflowError")
  case True
  then have "surface_area DEM resolution = Inl OverflowError" by (rule surface_area_overflow)
  then show ?thesis using True by simp
next
  case False
  then have ok: "float_pow_2 resolution = Inr (pow_2 resolution)"
    using float_pow_2_cases[of resolution] by simp
  define F where "F = (\<lambda>i j. DEM ! i ! j)"
  define U where "U = (\<lambda>i j. tri resolution (F i j) (F (Suc i) j) (F (Suc i) (Suc j)))"
  define L where "L = (\<lambda>i j. tri resolution (F i j) (F i (Suc j)) (F (Suc i) (Suc j)))"
  have res: "surface_area DEM resolution
      = Inr (fadd (np_sum (tab (rows - 1) (cols - 1) U)) (np_sum (tab (rows - 1) (cols - 1) L)))"
    using shape_ok_tab[OF assms(1)] surface_area_tab[OF ok, of rows cols F]
    by (simp only: F_def U_def L_def)
  from assms(4) obtain z where z: "z \<in> set (concat DEM)" "\<not> is_finite z" by blast
  from shape_ok_concat_nth[OF assms(1) z(1)] obtain p q
    where pq: "p < rows" "q < cols" and zpq: "z = F p q" unfolding F_def by blast
  from pq(1) assms(2) obtain i where i: "i < rows - 1" "p = i \<or> p = Suc i"
    by (rule enclosing_cell)
  from pq(2) assms(3) obtain j where j: "j < cols - 1" "q = j \<or> q = Suc j"
    by (rule enclosing_cell)
  have bad: "\<not> is_finite (F p q)" using z(2) zpq by simp
  have "U i j = NaN \<or> L i j = NaN"
    using i(2) j(2) bad unfolding U_def L_def by (auto intro: tri_NaN)
  then have "np_sum (tab (rows - 1) (cols - 1) U) = NaN \<or> np_sum (tab (rows - 1) (cols - 1) L) = NaN"
    using np_sum_tab_NaN[OF i(1) j(1)] by blast
  then have "fadd (np_sum (tab (rows - 1) (cols - 1) U)) (np_sum (tab (rows - 1) (cols - 1) L)) = NaN"
    by (auto simp: fadd_NaN_right)
  with res False show ?thesis by simp
qed

theorem non_finite_gives_nan_witness:
  "surface_area [[Fin 0, PInf], [Fin 0, Fin 0]] (Fin 1) = Inr NaN"
proof -
  have s: "shape_ok [[Fin 0, PInf], [Fin 0, Fin 0]] 2 2" by (simp add: shape_ok_def)
  have "\<exists>z \<in> set (concat [[Fin 0, PInf], [Fin 0, Fin 0]]). \<not> is_finite z" by simp
  from non_finite_gives_nan[OF s _ _ this, of "Fin 1"] show ?thesis by simp
qed

subsection \<open>Resolutions that are not positive\<close>

text \<open>
  Claim C4 says that for a resolution \<open>r \<le> 0\<close> the call is rejected with an
  invalid-argument error before any computation. The source does not look at the sign
  of the resolution: for the flat 2x2 grid and resolution \<open>-1\<close> it returns the area 1.
\<close>

theorem negative_resolution_accepted:
  "(- 1 :: real) \<le> 0
   \<and> surface_area (arr_map Fin [[0, 0], [0, 0]]) (Fin (- 1)) \<noteq> Inl InvalidArgument
   \<and> surface_area (arr_map Fin [[0, 0], [0, 0]]) (Fin (- 1)) = Inr (Fin 1)"
  by (simp add: zero_grid_value)

text \<open>
  Claim C4, amended. For every grid and every resolution \<open>r \<le> 0\<close>, \<open>surface_area\<close>
  does not reject the call with an invalid-argument error: the resolution enters the
  computation only as \<open>resolution ** 2.\<close>, so the call does exactly what the call with
  the resolution \<open>\<bar>r\<bar>\<close> does, returning the same value or raising the same
  \<open>OverflowError\<close>.
\<close>

theorem nonpositive_resolution_result:
  assumes "r \<le> 0"
  shows "surface_area DEM (Fin r) = surface_area DEM (Fin \<bar>r\<bar>)
         \<and> surface_area DEM (Fin r) \<noteq> Inl InvalidArgument"
proof
  show "surface_area DEM (Fin r) = surface_area DEM (Fin \<bar>r\<bar>)"
    unfolding surface_area_def by (simp only: float_pow_2_abs)
  show "surface_area DEM (Fin r) \<noteq> Inl InvalidArgument"
    by (rule surface_area_not_invalid)
qed

theorem nonpositive_resolution_result_witness:
  "surface_area (arr_map Fin [[0, 3], [1, 2]]) (Fin (- 2))
     = surface_area (arr_map Fin [[0, 3], [1, 2]]) (Fin 2)
   \<and> surface_area (arr_map Fin [[0, 3], [1, 2]]) (Fin (- 2)) \<noteq> Inl InvalidArgument"
proof -
  have neg: "(- 2 :: real) \<le> 0" and abs: "\<bar>- 2 :: real\<bar> = 2" by simp_all
  show ?thesis
    using nonpositive_resolution_result[OF neg, of "arr_map Fin [[0, 3], [1, 2]]"]
    unfolding abs .
qed

subsection \<open>Raising a single elevation\<close>




end
